theory Spec2Isabelle
  imports Complex_Main "HOL-Library.Word"
begin

section \<open>Go values used by package smhi\<close>

text \<open>
  The package is modelled for a 64-bit platform: Go's \<open>int\<close> is a 64-bit two's
  complement word, read with \<open>sint\<close>. A \<open>float64\<close> is its IEEE 754 binary64 bit
  pattern (sign bit, 11 exponent bits, 52 fraction bits), so that every value a
  \<open>[]float64\<close> can hold is a value of the model, the non-finite ones included.
  A Go \<open>string\<close> is its sequence of bytes: \<open>string\<close> here, one \<open>char\<close> per byte,
  with the source's \<open>\u\<close> and \<open>\U\<close> escapes written out in UTF-8.
\<close>

type_synonym go_int = "64 word"
type_synonym float64 = "64 word"

subsection \<open>Reading a float64\<close>

definition f64_sign :: "float64 \<Rightarrow> bool" where
  "f64_sign b = (2 ^ 63 \<le> unat b)"

definition f64_exponent :: "float64 \<Rightarrow> nat" where
  "f64_exponent b = (unat b div 2 ^ 52) mod 2 ^ 11"

definition f64_fraction :: "float64 \<Rightarrow> nat" where
  "f64_fraction b = unat b mod 2 ^ 52"

definition f64_is_finite :: "float64 \<Rightarrow> bool" where
  "f64_is_finite b = (f64_exponent b \<noteq> 2047)"

text \<open>The magnitude of a finite float64 as a real number, and its signed value.\<close>

definition f64_magnitude :: "float64 \<Rightarrow> real" where
  "f64_magnitude b =
     (if f64_exponent b = 0 then real (f64_fraction b) / 2 ^ 1074
      else real (2 ^ 52 + f64_fraction b) * 2 ^ f64_exponent b / 2 ^ 1075)"

definition f64_value :: "float64 \<Rightarrow> real" where
  "f64_value b = (if f64_sign b then - f64_magnitude b else f64_magnitude b)"

text \<open>
  The integer part of a finite float64, computed on the bit fields: the fraction
  is discarded. A subnormal number or a zero has magnitude below 1.
\<close>

definition f64_int_magnitude :: "float64 \<Rightarrow> nat" where
  "f64_int_magnitude b =
     (if f64_exponent b = 0 then 0
      else if 1075 \<le> f64_exponent b
        then (2 ^ 52 + f64_fraction b) * 2 ^ (f64_exponent b - 1075)
        else (2 ^ 52 + f64_fraction b) div 2 ^ (1075 - f64_exponent b))"

definition f64_trunc :: "float64 \<Rightarrow> int" where
  "f64_trunc b = (if f64_sign b then - int (f64_int_magnitude b) else int (f64_int_magnitude b))"

text \<open>Truncation toward zero of a real number, as the words say.\<close>

definition trunc_toward_zero :: "real \<Rightarrow> int" where
  "trunc_toward_zero x = (if 0 \<le> x then \<lfloor>x\<rfloor> else \<lceil>x\<rceil>)"

subsection \<open>The conversion \<open>int(f)\<close>\<close>

text \<open>
  Go converts a floating-point number to an integer by discarding the fraction.
  Where the result type cannot represent the value (the integer part is outside
  the 64-bit range, or the float is an infinity or a NaN) the conversion still
  succeeds, and its result is implementation-dependent: the parameter \<open>impl\<close>
  gives that result. The conversion never panics.
\<close>

definition representable_int :: "float64 \<Rightarrow> bool" where
  "representable_int f =
     (f64_is_finite f \<and> - (2 ^ 63) \<le> f64_trunc f \<and> f64_trunc f < 2 ^ 63)"

definition int_of_float64 :: "(float64 \<Rightarrow> go_int) \<Rightarrow> float64 \<Rightarrow> go_int" where
  "int_of_float64 impl f = (if representable_int f then word_of_int (f64_trunc f) else impl f)"

text \<open>On amd64 the conversion instruction yields the smallest integer out of range.\<close>

definition amd64_out_of_range :: "float64 \<Rightarrow> go_int" where
  "amd64_out_of_range f = 0x8000000000000000"

subsection \<open>Indexing a slice\<close>

datatype panic = IndexOutOfRange

definition index_go :: "'a list \<Rightarrow> go_int \<Rightarrow> panic + 'a" where
  "index_go xs i =
     (if 0 \<le> sint i \<and> nat (sint i) < length xs then Inr (xs ! nat (sint i))
      else Inl IndexOutOfRange)"

section \<open>The weather symbol table\<close>

record WeatherSymbol =
  Value :: go_int
  Meaning :: string
  Unicode :: string
  UnicodeWidth :: go_int

text \<open>The glyphs of the table, each the UTF-8 encoding of the escape in the source.\<close>

definition u2600 :: string where "u2600 = [CHR 0xE2, CHR 0x98, CHR 0x80]"
definition u26c5 :: string where "u26c5 = [CHR 0xE2, CHR 0x9B, CHR 0x85]"
definition u2601 :: string where "u2601 = [CHR 0xE2, CHR 0x98, CHR 0x81]"
definition u26a1 :: string where "u26a1 = [CHR 0xE2, CHR 0x9A, CHR 0xA1]"
definition U0001f32B :: string where "U0001f32B = [CHR 0xF0, CHR 0x9F, CHR 0x8C, CHR 0xAB]"
definition U0001f326 :: string where "U0001f326 = [CHR 0xF0, CHR 0x9F, CHR 0x8C, CHR 0xA6]"
definition U0001f327 :: string where "U0001f327 = [CHR 0xF0, CHR 0x9F, CHR 0x8C, CHR 0xA7]"
definition U0001f328 :: string where "U0001f328 = [CHR 0xF0, CHR 0x9F, CHR 0x8C, CHR 0xA8]"
definition u200b :: string where "u200b = [CHR 0xE2, CHR 0x80, CHR 0x8B]"

definition mk_symbol :: "go_int \<Rightarrow> string \<Rightarrow> string \<Rightarrow> go_int \<Rightarrow> WeatherSymbol" where
  "mk_symbol v m u w = \<lparr>Value = v, Meaning = m, Unicode = u, UnicodeWidth = w\<rparr>"

definition WeatherSymbols :: "WeatherSymbol list" where
  "WeatherSymbols =
    [mk_symbol 0 ''No weather'' ''?'' 1,
     mk_symbol 1 ''Clear sky'' u2600 1,
     mk_symbol 2 ''Nearly clear sky'' u26c5 2,
     mk_symbol 3 ''Variable cloudiness'' u26c5 2,
     mk_symbol 4 ''Halfclear sky'' u26c5 2,
     mk_symbol 5 ''Cloudy sky'' u2601 1,
     mk_symbol 6 ''Overcast'' u2601 1,
     mk_symbol 7 ''Fog'' U0001f32B 1,
     mk_symbol 8 ''Light rain showers'' U0001f326 1,
     mk_symbol 9 ''Moderate rain showers'' U0001f326 1,
     mk_symbol 10 ''Heavy rain showers'' U0001f327 1,
     mk_symbol 11 ''Thunderstorm'' u26a1 2,
     mk_symbol 12 ''Light sleet showers'' U0001f328 1,
     mk_symbol 13 ''Moderate sleet showers'' U0001f328 1,
     mk_symbol 14 ''Heavy sleet showers'' U0001f328 1,
     mk_symbol 15 ''Light snow showers'' U0001f328 1,
     mk_symbol 16 ''Moderate snow showers'' U0001f328 1,
     mk_symbol 17 ''Heavy snow showers'' U0001f328 1,
     mk_symbol 18 ''Light rain'' U0001f327 1,
     mk_symbol 19 ''Moderate rain'' U0001f327 1,
     mk_symbol 20 ''Heavy rain'' U0001f327 1,
     mk_symbol 21 ''Thunder'' u26a1 2,
     mk_symbol 22 ''Light sleet'' U0001f328 1,
     mk_symbol 23 ''Moderate sleet'' U0001f328 1,
     mk_symbol 24 ''Heavy sleet'' U0001f328 1,
     mk_symbol 25 ''Light snowfall'' U0001f328 1,
     mk_symbol 26 ''Moderate snowfall'' U0001f328 1,
     mk_symbol 27 ''Heavy snowfall'' U0001f328 1]"

text \<open>The zero value \<open>WeatherSymbol{}\<close>: every field is the zero value of its type.\<close>

definition zero_WeatherSymbol :: WeatherSymbol where
  "zero_WeatherSymbol = \<lparr>Value = 0, Meaning = [], Unicode = [], UnicodeWidth = 0\<rparr>"

definition FixedWidth :: "WeatherSymbol \<Rightarrow> string" where
  "FixedWidth s = (if UnicodeWidth s = 1 then Unicode s @ '' '' else Unicode s @ u200b)"

section \<open>The forecast data model\<close>

text \<open>
  The type parameter \<open>'t\<close> stands for \<open>time.Time\<close>, which no function of the
  package inspects. A \<open>Point\<close> is the array \<open>[2]float64\<close>.
\<close>

record Parameter =
  Name :: string
  LevelType :: string
  Level :: go_int
  Unit :: string
  Values :: "float64 list"

record 't TimeSeriesItem =
  ValidTime :: 't
  Parameters :: "Parameter list"

type_synonym Point = "float64 \<times> float64"

record Geometry =
  Type :: string
  Coordinates :: "Point list"

record 't Forecast =
  ApprovedTime :: 't
  ReferenceTime :: 't
  Geometry :: Geometry
  TimeSeries :: "'t TimeSeriesItem list"

section \<open>Accessors of a time series item\<close>

text \<open>
  Both lookups range over the parameters in order and return from inside the
  loop at the first parameter whose name matches; \<open>p.Values[0]\<close> panics when
  that parameter has no values. After the loop they return zero (\<open>+0.0\<close>, whose
  bit pattern is 0, and the integer 0). The method \<open>Int\<close> is \<open>Int_item\<close> here, and
  the method \<open>WeatherSymbol\<close> of an item is \<open>TimeSeriesItem_WeatherSymbol\<close>, apart
  from the record of that name; \<open>impl\<close> is the parameter of the conversion.
\<close>

fun Float64_loop :: "Parameter list \<Rightarrow> string \<Rightarrow> panic + float64" where
  "Float64_loop [] name = Inr 0"
| "Float64_loop (p # ps) name =
     (if Name p = name then index_go (Values p) 0 else Float64_loop ps name)"

definition Float64 :: "'t TimeSeriesItem \<Rightarrow> string \<Rightarrow> panic + float64" where
  "Float64 i name = Float64_loop (Parameters i) name"

fun Int_loop :: "(float64 \<Rightarrow> go_int) \<Rightarrow> Parameter list \<Rightarrow> string \<Rightarrow> panic + go_int" where
  "Int_loop impl [] name = Inr 0"
| "Int_loop impl (p # ps) name =
     (if Name p = name
      then (case index_go (Values p) 0 of
              Inl e \<Rightarrow> Inl e
            | Inr v \<Rightarrow> Inr (int_of_float64 impl v))
      else Int_loop impl ps name)"

definition Int_item :: "(float64 \<Rightarrow> go_int) \<Rightarrow> 't TimeSeriesItem \<Rightarrow> string \<Rightarrow> panic + go_int" where
  "Int_item impl i name = Int_loop impl (Parameters i) name"

definition Temperature :: "'t TimeSeriesItem \<Rightarrow> panic + float64" where
  "Temperature i = Float64 i ''t''"

definition MaxPrecipitation :: "'t TimeSeriesItem \<Rightarrow> panic + float64" where
  "MaxPrecipitation i = Float64 i ''pmax''"

definition WindSpeed :: "'t TimeSeriesItem \<Rightarrow> panic + float64" where
  "WindSpeed i = Float64 i ''ws''"

definition len :: "'a list \<Rightarrow> int" where
  "len xs = int (length xs)"

definition TimeSeriesItem_WeatherSymbol ::
    "(float64 \<Rightarrow> go_int) \<Rightarrow> 't TimeSeriesItem \<Rightarrow> panic + WeatherSymbol" where
  "TimeSeriesItem_WeatherSymbol impl i =
     (case Int_item impl i ''Wsymb2'' of
        Inl e \<Rightarrow> Inl e
      | Inr idx \<Rightarrow>
          if 1 \<le> sint idx \<and> sint idx < len WeatherSymbols
          then index_go WeatherSymbols idx
          else Inr zero_WeatherSymbol)"

section \<open>Fetching a forecast\<close>

text \<open>
  The outside world is a parameter of the model: \<open>fmt_f\<close> renders a float64 under
  the verb \<open>%f\<close>, \<open>http_Get\<close> answers a URL with a transport error or a response,
  and \<open>json_Unmarshal\<close> decodes a body into a forecast or fails. A response carries
  its status code and what \<open>io.ReadAll\<close> yields on its body. An error is either one
  handed over by these libraries or the one built by \<open>fmt.Errorf\<close>, kept as its text;
  a result \<open>Inl err\<close> is the pair \<open>(nil, err)\<close> of the source.
\<close>

datatype 'e go_error = Library 'e | Errorf string

record 'e Response =
  StatusCode :: go_int
  ReadAll_Body :: "'e + string"

definition StatusOK :: go_int where
  "StatusOK = 200"

definition forecast_url :: "(float64 \<Rightarrow> string) \<Rightarrow> float64 \<Rightarrow> float64 \<Rightarrow> string" where
  "forecast_url fmt_f lon lat =
     ''https://opendata-download-metfcst.smhi.se/api/category/pmp3g/version/2/geotype/point/lon/''
       @ fmt_f lon @ ''/lat/'' @ fmt_f lat @ ''/data.json''"

definition GetForecast ::
    "(float64 \<Rightarrow> string) \<Rightarrow> (string \<Rightarrow> 'e + 'e Response) \<Rightarrow> (string \<Rightarrow> 'e + 't Forecast)
      \<Rightarrow> float64 \<Rightarrow> float64 \<Rightarrow> 'e go_error + 't Forecast" where
  "GetForecast fmt_f http_Get json_Unmarshal lon lat =
     (case http_Get (forecast_url fmt_f lon lat) of
        Inl err \<Rightarrow> Inl (Library err)
      | Inr resp \<Rightarrow>
          (case ReadAll_Body resp of
             Inl err \<Rightarrow> Inl (Library err)
           | Inr buf \<Rightarrow>
               if StatusCode resp \<noteq> StatusOK
               then Inl (Errorf (''status is not ok: '' @ buf))
               else (case json_Unmarshal buf of
                       Inl err \<Rightarrow> Inl (Library err)
                     | Inr forecast \<Rightarrow> Inr forecast)))"

text \<open>The text of an error, given the texts of the libraries' errors.\<close>

fun Error :: "('e \<Rightarrow> string) \<Rightarrow> 'e go_error \<Rightarrow> string" where
  "Error text_of (Library err) = text_of err"
| "Error text_of (Errorf msg) = msg"

section \<open>Notions of the specification\<close>

text \<open>The first parameter of a sequence that carries a given name, if there is one.\<close>

definition first_named :: "string \<Rightarrow> Parameter list \<Rightarrow> Parameter option" where
  "first_named X ps = find (\<lambda>p. Name p = X) ps"

text \<open>The values an item holds under a name: those of the first parameter so named.\<close>

definition values_of :: "'t TimeSeriesItem \<Rightarrow> string \<Rightarrow> float64 list option" where
  "values_of i X = map_option Values (first_named X (Parameters i))"

text \<open>
  The display columns that the padded form of a symbol is declared to take: the
  declared width of its glyph, and one more for the ordinary space appended when
  that width is 1; the zero-width space appended otherwise takes none.
\<close>

definition declared_columns :: "WeatherSymbol \<Rightarrow> int" where
  "declared_columns s = sint (UnicodeWidth s) + (if UnicodeWidth s = 1 then 1 else 0)"

text \<open>
  The float64 numbers nearest to 18.6, 2.6 and 5.6, and the numbers 19, 1e19 and
  -2.5, as bit patterns.
\<close>

definition float64_18_6 :: float64 where "float64_18_6 = 0x403299999999999A"
definition float64_2_6 :: float64 where "float64_2_6 = 0x4004CCCCCCCCCCCD"
definition float64_5_6 :: float64 where "float64_5_6 = 0x4016666666666666"
definition float64_19 :: float64 where "float64_19 = 0x4033000000000000"
definition float64_1e19 :: float64 where "float64_1e19 = 0x43E158E460913D00"
definition float64_neg_2_5 :: float64 where "float64_neg_2_5 = 0xC004000000000000"

text \<open>
  How the command and the test of the package use a symbol: the padded glyph of
  the symbol of an item, \<open>item.WeatherSymbol().FixedWidth()\<close>.
\<close>

definition padded_symbol :: "(float64 \<Rightarrow> go_int) \<Rightarrow> 't TimeSeriesItem \<Rightarrow> panic + string" where
  "padded_symbol impl i =
     (case TimeSeriesItem_WeatherSymbol impl i of Inl e \<Rightarrow> Inl e | Inr s \<Rightarrow> Inr (FixedWidth s))"

section \<open>Sample items\<close>

text \<open>
  An item with the four parameters that the package's test reads, level and unit
  as the parameter catalogue of the package gives them; and small items for the
  corner cases: no parameter, a name that occurs twice, a negative number with a
  fraction, a number beyond the range of \<open>int\<close>, a parameter without values.
\<close>

definition param :: "string \<Rightarrow> go_int \<Rightarrow> string \<Rightarrow> float64 list \<Rightarrow> Parameter" where
  "param n l u vs = \<lparr>Name = n, LevelType = ''hl'', Level = l, Unit = u, Values = vs\<rparr>"

definition item :: "Parameter list \<Rightarrow> unit TimeSeriesItem" where
  "item ps = \<lparr>ValidTime = (), Parameters = ps\<rparr>"

definition test_item :: "unit TimeSeriesItem" where
  "test_item =
     item [param ''t'' 2 ''C'' [float64_18_6],
           param ''ws'' 10 ''m/s'' [float64_5_6],
           param ''pmax'' 0 ''mm/h'' [float64_2_6],
           param ''Wsymb2'' 0 ''code'' [float64_19]]"

definition empty_item :: "unit TimeSeriesItem" where
  "empty_item = item []"

definition duplicate_item :: "unit TimeSeriesItem" where
  "duplicate_item =
     item [param ''ws'' 10 ''m/s'' [float64_2_6],
           param ''t'' 2 ''C'' [float64_18_6, float64_2_6],
           param ''t'' 2 ''C'' [float64_5_6]]"

definition fraction_item :: "unit TimeSeriesItem" where
  "fraction_item = item [param ''spp'' 0 ''%'' [float64_neg_2_5]]"

definition huge_item :: "unit TimeSeriesItem" where
  "huge_item = item [param ''vis'' 2 ''km'' [float64_1e19]]"

definition no_values_item :: "unit TimeSeriesItem" where
  "no_values_item = item [param ''t'' 2 ''C'' []]"

text \<open>A transport that answers every request with status 503 and a short body.\<close>

definition unavailable :: "string \<Rightarrow> string + string Response" where
  "unavailable url = Inr \<lparr>StatusCode = 503, ReadAll_Body = Inr ''service unavailable''\<rparr>"

section \<open>Properties of the model\<close>

subsection \<open>Reading and converting a float64\<close>

lemmas f64_fields = f64_exponent_def f64_fraction_def f64_sign_def

lemmas f64_eval = representable_int_def f64_is_finite_def f64_trunc_def
  f64_int_magnitude_def f64_value_def f64_magnitude_def f64_fields

lemma f64_fraction_less: "f64_fraction b < 2 ^ 52"
  by (simp add: f64_fraction_def)

lemma f64_magnitude_nonneg: "0 \<le> f64_magnitude b"
  by (simp add: f64_magnitude_def)

lemma scale_down: "e + k = n \<Longrightarrow> (x::real) * 2 ^ e / 2 ^ n = x / 2 ^ k"
  by (auto simp: power_add)

lemma floor_f64_magnitude: "\<lfloor>f64_magnitude b\<rfloor> = int (f64_int_magnitude b)"
proof -
  let ?m = "2 ^ 52 + f64_fraction b" and ?e = "f64_exponent b"
  consider (sub) "?e = 0" | (big) "1075 \<le> ?e" | (small) "0 < ?e" "?e < 1075"
    by linarith
  then show ?thesis
  proof cases
    case sub
    have "real (f64_fraction b) < 2 ^ 52"
      using f64_fraction_less [of b] by (metis of_nat_less_iff of_nat_numeral of_nat_power)
    also have "\<dots> \<le> (2::real) ^ 1074" by (rule power_increasing) simp_all
    finally have "real (f64_fraction b) / 2 ^ 1074 < 1" by simp
    moreover have "0 \<le> real (f64_fraction b) / 2 ^ 1074" by simp
    ultimately have "\<lfloor>real (f64_fraction b) / 2 ^ 1074\<rfloor> = 0" by linarith
    with sub show ?thesis by (simp add: f64_magnitude_def f64_int_magnitude_def)
  next
    case big
    then obtain k where k: "?e = 1075 + k" using le_Suc_ex by blast
    have "f64_magnitude b = real (?m * 2 ^ k)"
      using k by (simp add: f64_magnitude_def power_add)
    moreover have "f64_int_magnitude b = ?m * 2 ^ k"
      using k by (simp add: f64_int_magnitude_def)
    ultimately show ?thesis by (simp only: floor_of_nat)
  next
    case small
    then obtain k where k: "?e + k = 1075" using le_Suc_ex less_imp_le by metis
    have "f64_magnitude b = real ?m * 2 ^ ?e / 2 ^ 1075"
      using small(1) by (simp only: f64_magnitude_def) simp
    also have "\<dots> = real ?m / 2 ^ k"
      using k by (rule scale_down)
    also have "\<dots> = real ?m / real (2 ^ k)" by simp
    finally have "\<lfloor>f64_magnitude b\<rfloor> = int (?m div 2 ^ k)"
      by (simp only: floor_divide_of_nat_eq)
    moreover have "1075 - ?e = k" using k by simp
    ultimately show ?thesis using small by (simp add: f64_int_magnitude_def)
  qed
qed

text \<open>The integer part computed on the bits is the truncation toward zero of the value.\<close>

lemma f64_trunc_eq: "f64_trunc b = trunc_toward_zero (f64_value b)"
proof (cases "f64_sign b")
  case False
  then show ?thesis
    using f64_magnitude_nonneg [of b] floor_f64_magnitude [of b]
    by (simp add: f64_trunc_def f64_value_def trunc_toward_zero_def)
next
  case True
  have "trunc_toward_zero (- f64_magnitude b) = - \<lfloor>f64_magnitude b\<rfloor>"
    using f64_magnitude_nonneg [of b]
    by (cases "f64_magnitude b = 0") (simp_all add: trunc_toward_zero_def ceiling_minus)
  with True show ?thesis
    using floor_f64_magnitude [of b]
    by (simp add: f64_trunc_def f64_value_def)
qed

lemma representable_zero: "representable_int 0"
  by (simp add: f64_eval)

lemma f64_value_zero: "f64_value 0 = 0"
  by (simp add: f64_eval)

lemma int_of_float64_zero: "int_of_float64 impl 0 = 0"
  by (simp add: int_of_float64_def f64_eval)

lemma sint_int_of_float64:
  assumes "representable_int f"
  shows "sint (int_of_float64 impl f) = f64_trunc f"
proof -
  from assms have "- (2 ^ 63) \<le> f64_trunc f" "f64_trunc f < 2 ^ 63"
    by (simp_all add: representable_int_def)
  then have "sint (word_of_int (f64_trunc f) :: 64 word) = f64_trunc f"
    by (simp add: sint_sbintrunc' signed_take_bit_int_eq_self)
  with assms show ?thesis by (simp add: int_of_float64_def)
qed

lemma sint_of_nat_small:
  assumes "i < 2 ^ 63"
  shows "sint (of_nat i :: go_int) = int i"
proof -
  have "sint (of_nat i :: go_int) = signed_take_bit (LENGTH(64) - Suc 0) (int i)"
    unfolding signed_of_nat by simp
  also have "\<dots> = int i"
  proof (rule signed_take_bit_int_eq_self)
    show "- (2 ^ (LENGTH(64) - Suc 0)) \<le> int i" by simp
    have "int i < int (2 ^ 63)" using assms by (simp only: of_nat_less_iff)
    then show "int i < 2 ^ (LENGTH(64) - Suc 0)" by simp
  qed
  finally show ?thesis .
qed

text \<open>
  Outside the representable range no 64-bit result is the integer part, whatever
  the implementation returns.
\<close>

lemma sint_int_of_float64_out_of_range:
  assumes "f64_is_finite f" "\<not> representable_int f"
  shows "sint (int_of_float64 impl f) \<noteq> f64_trunc f"
proof
  assume eq: "sint (int_of_float64 impl f) = f64_trunc f"
  have "- (2 ^ 63) \<le> sint (int_of_float64 impl f)" "sint (int_of_float64 impl f) < 2 ^ 63"
    using sint_ge [of "int_of_float64 impl f"] sint_lt [of "int_of_float64 impl f"] by simp_all
  with eq assms show False by (simp add: representable_int_def)
qed

text \<open>The sample numbers are the float64 numbers they are named after.\<close>

lemma float64_19_value: "f64_value float64_19 = 19"
  by (simp add: f64_eval float64_19_def)

lemma float64_1e19_value: "f64_value float64_1e19 = 10 ^ 19"
  by (simp add: f64_eval float64_1e19_def)

lemma float64_neg_2_5_value: "f64_value float64_neg_2_5 = - 2.5"
  by (simp add: f64_eval float64_neg_2_5_def)

lemma float64_18_6_value: "\<bar>f64_value float64_18_6 - 18.6\<bar> \<le> 1 / 2 ^ 49"
  by (simp add: f64_eval float64_18_6_def)

lemma float64_2_6_value: "\<bar>f64_value float64_2_6 - 2.6\<bar> \<le> 1 / 2 ^ 52"
  by (simp add: f64_eval float64_2_6_def)

lemma float64_5_6_value: "\<bar>f64_value float64_5_6 - 5.6\<bar> \<le> 1 / 2 ^ 51"
  by (simp add: f64_eval float64_5_6_def)

lemma int_of_float64_19: "int_of_float64 impl float64_19 = 19"
  by (simp add: int_of_float64_def f64_eval float64_19_def)

lemma int_of_float64_neg_2_5: "int_of_float64 impl float64_neg_2_5 = - 2"
  by (simp add: int_of_float64_def f64_eval float64_neg_2_5_def)

lemma not_representable_1e19: "f64_is_finite float64_1e19 \<and> \<not> representable_int float64_1e19"
  by (simp add: f64_eval float64_1e19_def)

subsection \<open>The lookup loops\<close>

lemma index_go_0: "index_go xs 0 = (case xs of [] \<Rightarrow> Inl IndexOutOfRange | x # _ \<Rightarrow> Inr x)"
  by (simp add: index_go_def split: list.splits)

lemma Float64_loop_first:
  "Float64_loop ps X =
     (case first_named X ps of None \<Rightarrow> Inr 0 | Some p \<Rightarrow> index_go (Values p) 0)"
  by (induction ps) (simp_all add: first_named_def)

lemma Int_loop_Float64_loop:
  "Int_loop impl ps X =
     (case Float64_loop ps X of Inl e \<Rightarrow> Inl e | Inr v \<Rightarrow> Inr (int_of_float64 impl v))"
  by (induction ps) (simp_all add: int_of_float64_zero)

lemma first_named_None: "(\<forall>p\<in>set ps. Name p \<noteq> X) \<Longrightarrow> first_named X ps = None"
  by (simp add: first_named_def find_None_iff)

lemma first_named_append:
  "(\<forall>q\<in>set pre. Name q \<noteq> X) \<Longrightarrow> Name p = X \<Longrightarrow> first_named X (pre @ p # post) = Some p"
  by (induction pre) (simp_all add: first_named_def)

text \<open>Where names are unique, a parameter of the item is the first of its name.\<close>

lemma first_named_unique:
  "distinct (map Name ps) \<Longrightarrow> p \<in> set ps \<Longrightarrow> first_named (Name p) ps = Some p"
  by (induction ps) (auto simp: first_named_def)

lemma Float64_values_of:
  "values_of i X = Some (v # vs) \<Longrightarrow> Float64 i X = Inr v"
  by (auto simp: values_of_def Float64_def Float64_loop_first index_go_0)

lemma Float64_loop_total:
  "(\<forall>p\<in>set ps. Values p \<noteq> []) \<Longrightarrow> \<exists>v. Float64_loop ps X = Inr v"
  by (induction ps) (auto simp: index_go_0 split: list.splits)

text \<open>A parameter without values makes the lookup panic.\<close>

lemma Float64_no_values: "Float64 no_values_item ''t'' = Inl IndexOutOfRange"
  by (simp add: Float64_def no_values_item_def item_def param_def index_go_0)

subsection \<open>The table\<close>

lemma length_WeatherSymbols: "length WeatherSymbols = 28"
  by (simp add: WeatherSymbols_def)

lemma Value_WeatherSymbols: "map Value WeatherSymbols = map of_nat [0..<28]"
  by (simp add: WeatherSymbols_def mk_symbol_def upt_rec)

lemma UnicodeWidth_WeatherSymbols:
  "list_all (\<lambda>s. UnicodeWidth s = 1 \<or> UnicodeWidth s = 2) WeatherSymbols"
  by (simp add: WeatherSymbols_def mk_symbol_def)

lemma Unicode_WeatherSymbols: "list_all (\<lambda>s. Unicode s \<noteq> []) WeatherSymbols"
  by (simp add: WeatherSymbols_def mk_symbol_def u2600_def u26c5_def u2601_def u26a1_def
      U0001f32B_def U0001f326_def U0001f327_def U0001f328_def)

lemma WeatherSymbols_19: "WeatherSymbols ! 19 = mk_symbol 19 ''Moderate rain'' U0001f327 1"
  by (simp add: WeatherSymbols_def)

lemma WeatherSymbols_2: "WeatherSymbols ! 2 = mk_symbol 2 ''Nearly clear sky'' u26c5 2"
  by (simp add: WeatherSymbols_def)

text \<open>The guard of the lookup keeps the index inside the table.\<close>

lemma WeatherSymbol_of_code:
  assumes "Int_item impl i ''Wsymb2'' = Inr c"
  shows "TimeSeriesItem_WeatherSymbol impl i =
           Inr (if 1 \<le> sint c \<and> sint c \<le> 27 then WeatherSymbols ! nat (sint c)
                else zero_WeatherSymbol)"
  using assms
  by (auto simp: TimeSeriesItem_WeatherSymbol_def len_def length_WeatherSymbols index_go_def)

lemma Int_item_absent:
  "(\<forall>p\<in>set (Parameters i). Name p \<noteq> X) \<Longrightarrow> Int_item impl i X = Inr 0"
  by (simp add: Int_item_def Int_loop_Float64_loop Float64_loop_first first_named_None
      int_of_float64_zero)

lemma FixedWidth_zero: "FixedWidth zero_WeatherSymbol = u200b"
  by (simp add: FixedWidth_def zero_WeatherSymbol_def)

section \<open>The claims\<close>

lemmas item_eval = item_def param_def test_item_def empty_item_def duplicate_item_def
  fraction_item_def huge_item_def no_values_item_def

text \<open>
  Claim C1. The integer code of an item is what \<open>Int\<close> returns for the name
  \<open>Wsymb2\<close>. For a code \<open>c\<close> with \<open>1 \<le> c \<le> 27\<close> the lookup returns the entry of
  the table at index \<open>c\<close>; for every other code (zero, negative, 28 and above) it
  returns the zero value of \<open>WeatherSymbol\<close>, whose value and display width are 0
  and whose meaning and glyph are empty.
\<close>

theorem WeatherSymbol_lookup:
  assumes "Int_item impl i ''Wsymb2'' = Inr c"
  shows "(1 \<le> sint c \<and> sint c \<le> 27 \<longrightarrow>
            TimeSeriesItem_WeatherSymbol impl i = Inr (WeatherSymbols ! nat (sint c)))
       \<and> (\<not> (1 \<le> sint c \<and> sint c \<le> 27) \<longrightarrow>
            TimeSeriesItem_WeatherSymbol impl i =
              Inr \<lparr>Value = 0, Meaning = [], Unicode = [], UnicodeWidth = 0\<rparr>)"
  using WeatherSymbol_of_code [OF assms] by (simp add: zero_WeatherSymbol_def)

theorem WeatherSymbol_lookup_witness:
  "Int_item amd64_out_of_range test_item ''Wsymb2'' = Inr 19
   \<and> TimeSeriesItem_WeatherSymbol amd64_out_of_range test_item = Inr (WeatherSymbols ! 19)
   \<and> Int_item amd64_out_of_range empty_item ''Wsymb2'' = Inr 0
   \<and> TimeSeriesItem_WeatherSymbol amd64_out_of_range empty_item =
        Inr \<lparr>Value = 0, Meaning = [], Unicode = [], UnicodeWidth = 0\<rparr>"
proof -
  have a: "Int_item amd64_out_of_range test_item ''Wsymb2'' = Inr 19"
    by (simp add: Int_item_def item_eval index_go_0 int_of_float64_19)
  have b: "Int_item amd64_out_of_range empty_item ''Wsymb2'' = Inr 0"
    by (simp add: Int_item_def item_eval)
  show ?thesis
    using a b WeatherSymbol_lookup [OF a] WeatherSymbol_lookup [OF b] by simp
qed

text \<open>
  Claim C2. If no parameter of the item is named \<open>X\<close>, \<open>Float64\<close> returns 0.0.
  If the parameters are \<open>pre @ p # post\<close>, where no parameter of \<open>pre\<close> is named
  \<open>X\<close> and \<open>p\<close> is, and the values of \<open>p\<close> are \<open>v # vs\<close>, it returns \<open>v\<close>:
  whatever the trailing values \<open>vs\<close> and whatever the later parameters \<open>post\<close>,
  those named \<open>X\<close> included.
\<close>

theorem Float64_first_match:
  "((\<forall>p\<in>set (Parameters i). Name p \<noteq> X) \<longrightarrow> Float64 i X = Inr 0)
   \<and> (Parameters i = pre @ p # post \<and> (\<forall>q\<in>set pre. Name q \<noteq> X) \<and> Name p = X
        \<and> Values p = v # vs \<longrightarrow> Float64 i X = Inr v)"
  by (auto simp: Float64_def Float64_loop_first first_named_None first_named_append index_go_0)

theorem Float64_first_match_witness:
  "list_all (\<lambda>p. Name p \<noteq> ''gust'') (Parameters test_item)
   \<and> Float64 test_item ''gust'' = Inr 0
   \<and> Parameters duplicate_item =
        [param ''ws'' 10 ''m/s'' [float64_2_6]]
          @ param ''t'' 2 ''C'' [float64_18_6, float64_2_6] # [param ''t'' 2 ''C'' [float64_5_6]]
   \<and> Float64 duplicate_item ''t'' = Inr float64_18_6"
proof -
  have a: "\<forall>p\<in>set (Parameters test_item). Name p \<noteq> ''gust''"
    by (simp add: item_eval)
  have b: "Parameters duplicate_item =
        [param ''ws'' 10 ''m/s'' [float64_2_6]]
          @ param ''t'' 2 ''C'' [float64_18_6, float64_2_6] # [param ''t'' 2 ''C'' [float64_5_6]]"
    by (simp add: item_eval)
  have c: "(\<forall>q\<in>set [param ''ws'' 10 ''m/s'' [float64_2_6]]. Name q \<noteq> ''t'')
      \<and> Name (param ''t'' 2 ''C'' [float64_18_6, float64_2_6]) = ''t''
      \<and> Values (param ''t'' 2 ''C'' [float64_18_6, float64_2_6]) = float64_18_6 # [float64_2_6]"
    by (simp add: param_def)
  have "Float64 test_item ''gust'' = Inr 0"
    using a Float64_first_match [of test_item "''gust''"] by blast
  moreover have "Float64 duplicate_item ''t'' = Inr float64_18_6"
    using b c
      Float64_first_match [of duplicate_item "''t''" "[param ''ws'' 10 ''m/s'' [float64_2_6]]"
        "param ''t'' 2 ''C'' [float64_18_6, float64_2_6]" "[param ''t'' 2 ''C'' [float64_5_6]]"
        float64_18_6 "[float64_2_6]"]
    by blast
  ultimately show ?thesis using a b by (simp add: list_all_iff)
qed

text \<open>
  Claim C3. If every parameter of the item has at least one value, then \<open>Float64\<close>
  and \<open>Int\<close>, for every name, and the weather symbol lookup return a result: none
  of them panics, neither on \<open>Values[0]\<close> nor on the index into the table.
\<close>

theorem accessors_total:
  assumes "\<forall>p\<in>set (Parameters i). Values p \<noteq> []"
  shows "(\<exists>v. Float64 i X = Inr v) \<and> (\<exists>n. Int_item impl i X = Inr n)
       \<and> (\<exists>s. TimeSeriesItem_WeatherSymbol impl i = Inr s)"
proof -
  have int: "\<exists>n. Int_item impl i Y = Inr n" for Y
    using Float64_loop_total [OF assms, of Y]
    by (auto simp: Int_item_def Int_loop_Float64_loop)
  have "\<exists>v. Float64 i X = Inr v"
    using Float64_loop_total [OF assms] by (simp add: Float64_def)
  moreover from int obtain c where "Int_item impl i ''Wsymb2'' = Inr c" by blast
  then have "\<exists>s. TimeSeriesItem_WeatherSymbol impl i = Inr s"
    by (simp add: WeatherSymbol_of_code)
  ultimately show ?thesis using int by blast
qed

theorem accessors_total_witness:
  "list_all (\<lambda>p. Values p \<noteq> []) (Parameters test_item)
   \<and> (\<exists>v. Float64 test_item ''t'' = Inr v)
   \<and> (\<exists>n. Int_item amd64_out_of_range test_item ''t'' = Inr n)
   \<and> (\<exists>s. TimeSeriesItem_WeatherSymbol amd64_out_of_range test_item = Inr s)"
proof -
  have a: "\<forall>p\<in>set (Parameters test_item). Values p \<noteq> []"
    by (simp add: item_eval)
  show ?thesis
    using a accessors_total [OF a, of "''t''" amd64_out_of_range] by (simp add: list_all_iff)
qed

text \<open>
  Claim C4. The values an item holds under a name are those of the first
  parameter so named; where names are unique, an item that includes a parameter
  holds that parameter's values under its name. For every item and every number
  \<open>v\<close>: if the item holds \<open>v\<close> followed by any values under \<open>t\<close>, its temperature is
  \<open>v\<close>; likewise its maximal precipitation for \<open>pmax\<close> and its wind speed for
  \<open>ws\<close>; and if it holds under \<open>Wsymb2\<close> a number whose integer part \<open>c\<close> lies in
  1..27, its weather symbol is entry \<open>c\<close> of the table. In particular, for an item
  that holds [18.6] under \<open>t\<close>, [2.6] under \<open>pmax\<close>, [5.6] under \<open>ws\<close> and [19]
  under \<open>Wsymb2\<close>, the temperature is 18.6, the maximal precipitation 2.6, the
  wind speed 5.6, and the weather symbol is entry 19 of the table, with value 19
  and meaning "Moderate rain", whose padded form is its glyph U+1F327 and one
  space.
\<close>

theorem test_scenario:
  "(values_of i ''t'' = Some (vt # vts) \<longrightarrow> Temperature i = Inr vt)
   \<and> (values_of i ''pmax'' = Some (vp # vps) \<longrightarrow> MaxPrecipitation i = Inr vp)
   \<and> (values_of i ''ws'' = Some (vw # vws) \<longrightarrow> WindSpeed i = Inr vw)
   \<and> (values_of i ''Wsymb2'' = Some (vc # vcs) \<and> representable_int vc
        \<and> 1 \<le> trunc_toward_zero (f64_value vc) \<and> trunc_toward_zero (f64_value vc) \<le> 27 \<longrightarrow>
        TimeSeriesItem_WeatherSymbol impl i
          = Inr (WeatherSymbols ! nat (trunc_toward_zero (f64_value vc))))
   \<and> (values_of i ''t'' = Some [float64_18_6] \<and> values_of i ''pmax'' = Some [float64_2_6]
        \<and> values_of i ''ws'' = Some [float64_5_6] \<and> values_of i ''Wsymb2'' = Some [float64_19] \<longrightarrow>
        Temperature i = Inr float64_18_6
        \<and> MaxPrecipitation i = Inr float64_2_6
        \<and> WindSpeed i = Inr float64_5_6
        \<and> (\<exists>s. TimeSeriesItem_WeatherSymbol impl i = Inr s
               \<and> s = WeatherSymbols ! 19 \<and> Value s = 19 \<and> Meaning s = ''Moderate rain''
               \<and> Unicode s = [CHR 0xF0, CHR 0x9F, CHR 0x8C, CHR 0xA7]
               \<and> FixedWidth s = Unicode s @ '' ''))
   \<and> (distinct (map Name (Parameters i)) \<and> p \<in> set (Parameters i) \<longrightarrow>
        values_of i (Name p) = Some (Values p))"
proof -
  have code: "TimeSeriesItem_WeatherSymbol impl i
      = Inr (WeatherSymbols ! nat (trunc_toward_zero (f64_value v)))"
    if "values_of i ''Wsymb2'' = Some (v # vs)" "representable_int v"
      "1 \<le> trunc_toward_zero (f64_value v)" "trunc_toward_zero (f64_value v) \<le> 27" for v vs
  proof -
    have "Float64 i ''Wsymb2'' = Inr v"
      using that(1) by (rule Float64_values_of)
    then have "Int_item impl i ''Wsymb2'' = Inr (int_of_float64 impl v)"
      by (simp add: Int_item_def Float64_def Int_loop_Float64_loop)
    moreover have "sint (int_of_float64 impl v) = trunc_toward_zero (f64_value v)"
      using that(2) by (simp add: sint_int_of_float64 f64_trunc_eq)
    ultimately show ?thesis
      using that(3,4) by (simp add: WeatherSymbol_of_code)
  qed
  have scenario: "\<exists>s. TimeSeriesItem_WeatherSymbol impl i = Inr s
      \<and> s = WeatherSymbols ! 19 \<and> Value s = 19 \<and> Meaning s = ''Moderate rain''
      \<and> Unicode s = [CHR 0xF0, CHR 0x9F, CHR 0x8C, CHR 0xA7]
      \<and> FixedWidth s = Unicode s @ '' ''"
    if "values_of i ''Wsymb2'' = Some [float64_19]"
  proof -
    have "representable_int float64_19"
      by (simp add: f64_eval float64_19_def)
    with code [OF that] have "TimeSeriesItem_WeatherSymbol impl i = Inr (WeatherSymbols ! 19)"
      by (simp add: float64_19_value trunc_toward_zero_def)
    then show ?thesis
      by (simp add: WeatherSymbols_19 mk_symbol_def FixedWidth_def U0001f327_def)
  qed
  have unique: "values_of i (Name p) = Some (Values p)"
    if "distinct (map Name (Parameters i))" "p \<in> set (Parameters i)"
    using that by (simp add: values_of_def first_named_unique)
  show ?thesis
    using code scenario unique
    by (simp add: Temperature_def MaxPrecipitation_def WindSpeed_def Float64_values_of)
qed

theorem test_scenario_witness:
  "values_of test_item ''t'' = Some [float64_18_6]
   \<and> values_of test_item ''pmax'' = Some [float64_2_6]
   \<and> values_of test_item ''ws'' = Some [float64_5_6]
   \<and> values_of test_item ''Wsymb2'' = Some [float64_19]
   \<and> representable_int float64_19 \<and> trunc_toward_zero (f64_value float64_19) = 19
   \<and> Temperature test_item = Inr float64_18_6
   \<and> MaxPrecipitation test_item = Inr float64_2_6
   \<and> WindSpeed test_item = Inr float64_5_6
   \<and> TimeSeriesItem_WeatherSymbol amd64_out_of_range test_item = Inr (WeatherSymbols ! 19)
   \<and> padded_symbol amd64_out_of_range test_item
       = Inr [CHR 0xF0, CHR 0x9F, CHR 0x8C, CHR 0xA7, CHR 0x20]
   \<and> distinct (map Name (Parameters test_item))
   \<and> param ''pmax'' 0 ''mm/h'' [float64_2_6] \<in> set (Parameters test_item)
   \<and> values_of duplicate_item ''t'' = Some [float64_18_6, float64_2_6]
   \<and> Temperature duplicate_item = Inr float64_18_6
   \<and> values_of duplicate_item ''ws'' = Some [float64_2_6]
   \<and> WindSpeed duplicate_item = Inr float64_2_6"
proof -
  have a: "values_of test_item ''t'' = Some [float64_18_6]"
    and b: "values_of test_item ''pmax'' = Some [float64_2_6]"
    and c: "values_of test_item ''ws'' = Some [float64_5_6]"
    and d: "values_of test_item ''Wsymb2'' = Some [float64_19]"
    by (simp_all add: values_of_def first_named_def item_eval)
  have e: "representable_int float64_19"
    by (simp add: f64_eval float64_19_def)
  have f: "trunc_toward_zero (f64_value float64_19) = 19"
    by (simp add: float64_19_value trunc_toward_zero_def)
  have g: "distinct (map Name (Parameters test_item))"
    and h: "param ''pmax'' 0 ''mm/h'' [float64_2_6] \<in> set (Parameters test_item)"
    by (simp_all add: item_eval)
  have k: "values_of duplicate_item ''t'' = Some [float64_18_6, float64_2_6]"
    and l: "values_of duplicate_item ''ws'' = Some [float64_2_6]"
    by (simp_all add: values_of_def first_named_def item_eval)
  note fixture = test_scenario [of test_item float64_18_6 "[]" float64_2_6 "[]" float64_5_6 "[]"
      float64_19 "[]" amd64_out_of_range "param ''pmax'' 0 ''mm/h'' [float64_2_6]"]
  note other = test_scenario [of duplicate_item float64_18_6 "[float64_2_6]" _ _ float64_2_6 "[]"]
  have "Temperature test_item = Inr float64_18_6"
    and "MaxPrecipitation test_item = Inr float64_2_6"
    and "WindSpeed test_item = Inr float64_5_6"
    using fixture a b c by blast+
  moreover have sym19: "TimeSeriesItem_WeatherSymbol amd64_out_of_range test_item
      = Inr (WeatherSymbols ! 19)"
    using fixture d e f by simp
  moreover have "padded_symbol amd64_out_of_range test_item
      = Inr [CHR 0xF0, CHR 0x9F, CHR 0x8C, CHR 0xA7, CHR 0x20]"
    using fixture a b c d sym19 by (auto simp: padded_symbol_def)
  moreover have "values_of test_item (Name (param ''pmax'' 0 ''mm/h'' [float64_2_6]))
      = Some (Values (param ''pmax'' 0 ''mm/h'' [float64_2_6]))"
    using fixture g h by blast
  moreover have "Temperature duplicate_item = Inr float64_18_6"
    and "WindSpeed duplicate_item = Inr float64_2_6"
    using other k l by blast+
  ultimately show ?thesis
    using a b c d e f g h k l by simp
qed

text \<open>
  Claim C5. When the request is answered, the body of the answer reads as \<open>B\<close> and
  the status is not OK, \<open>GetForecast\<close> returns the error built by \<open>fmt.Errorf\<close>,
  whose text is "status is not ok: " followed by \<open>B\<close> and so contains \<open>B\<close>; it
  returns no forecast, and the result is the same whatever the JSON decoder
  would do: the decoder is not consulted.
\<close>

theorem GetForecast_status_not_ok:
  assumes "http_Get (forecast_url fmt_f lon lat) = Inr resp"
    and "ReadAll_Body resp = Inr B"
    and "StatusCode resp \<noteq> StatusOK"
  shows "(\<exists>err. GetForecast fmt_f http_Get json_Unmarshal lon lat = Inl err
            \<and> Error text_of err = ''status is not ok: '' @ B
            \<and> (\<exists>pre post. Error text_of err = pre @ B @ post))
       \<and> (\<forall>forecast. GetForecast fmt_f http_Get json_Unmarshal lon lat \<noteq> Inr forecast)
       \<and> (\<forall>decoder. GetForecast fmt_f http_Get decoder lon lat
                       = GetForecast fmt_f http_Get json_Unmarshal lon lat)"
proof -
  have r: "GetForecast fmt_f http_Get d lon lat = Inl (Errorf (''status is not ok: '' @ B))" for d
    using assms by (simp add: GetForecast_def)
  have "\<exists>pre post. ''status is not ok: '' @ B = pre @ B @ post"
    by (rule exI [of _ "''status is not ok: ''"], rule exI [of _ "[]"]) simp
  then show ?thesis by (simp add: r)
qed

theorem GetForecast_status_not_ok_witness:
  "unavailable (forecast_url (\<lambda>f. ''0.000000'') 0 0)
     = Inr \<lparr>StatusCode = 503, ReadAll_Body = Inr ''service unavailable''\<rparr>
   \<and> (503 :: go_int) \<noteq> StatusOK
   \<and> GetForecast (\<lambda>f. ''0.000000'') unavailable (\<lambda>buf. Inl ''not consulted'') 0 0
       = (Inl (Errorf ''status is not ok: service unavailable'') :: string go_error + unit Forecast)
   \<and> Error id (Errorf ''status is not ok: service unavailable'')
       = ''status is not ok: '' @ ''service unavailable''"
proof -
  let ?resp = "\<lparr>StatusCode = 503, ReadAll_Body = Inr ''service unavailable''\<rparr> :: string Response"
  have a: "unavailable (forecast_url (\<lambda>f. ''0.000000'') 0 0) = Inr ?resp"
    by (simp add: unavailable_def)
  have b: "ReadAll_Body ?resp = Inr ''service unavailable''" by simp
  have c: "StatusCode ?resp \<noteq> StatusOK" by (simp add: StatusOK_def)
  obtain err where
    "GetForecast (\<lambda>f. ''0.000000'') unavailable (\<lambda>buf. Inl ''not consulted'') 0 0
       = (Inl err :: string go_error + unit Forecast)"
    and "Error id err = ''status is not ok: '' @ ''service unavailable''"
    using GetForecast_status_not_ok [where http_Get = unavailable and fmt_f = "\<lambda>f. ''0.000000''"
        and lon = 0 and lat = 0 and resp = ?resp and json_Unmarshal = "\<lambda>buf. Inl ''not consulted''"
        and text_of = id, OF a b c]
    by blast
  moreover from this have "err = Errorf ''status is not ok: service unavailable''"
    by (cases err) (simp_all add: GetForecast_def unavailable_def StatusOK_def)
  ultimately show ?thesis using a c by simp
qed

text \<open>
  Claim C6. Every entry of the table has display width 1 or 2. \<open>FixedWidth\<close> of
  an entry is its glyph followed by one ordinary space (byte 0x20) when the
  width is 1, and its glyph followed by the zero-width space U+200B (in UTF-8
  the bytes E2 80 8B) when the width is 2.
\<close>

theorem FixedWidth_of_entries:
  "\<forall>s\<in>set WeatherSymbols.
     (UnicodeWidth s = 1 \<or> UnicodeWidth s = 2)
     \<and> (UnicodeWidth s = 1 \<longrightarrow> FixedWidth s = Unicode s @ [CHR 0x20])
     \<and> (UnicodeWidth s = 2 \<longrightarrow> FixedWidth s = Unicode s @ [CHR 0xE2, CHR 0x80, CHR 0x8B])"
  using UnicodeWidth_WeatherSymbols
  by (auto simp: list_all_iff FixedWidth_def u200b_def)

theorem FixedWidth_of_entries_witness:
  "WeatherSymbols ! 19 \<in> set WeatherSymbols
   \<and> UnicodeWidth (WeatherSymbols ! 19) = 1
   \<and> FixedWidth (WeatherSymbols ! 19) = [CHR 0xF0, CHR 0x9F, CHR 0x8C, CHR 0xA7, CHR 0x20]
   \<and> WeatherSymbols ! 2 \<in> set WeatherSymbols
   \<and> UnicodeWidth (WeatherSymbols ! 2) = 2
   \<and> FixedWidth (WeatherSymbols ! 2) = [CHR 0xE2, CHR 0x9B, CHR 0x85, CHR 0xE2, CHR 0x80, CHR 0x8B]"
proof -
  have a: "WeatherSymbols ! 19 \<in> set WeatherSymbols" and b: "WeatherSymbols ! 2 \<in> set WeatherSymbols"
    by (simp_all add: length_WeatherSymbols)
  have c: "UnicodeWidth (WeatherSymbols ! 19) = 1"
    and d: "Unicode (WeatherSymbols ! 19) = [CHR 0xF0, CHR 0x9F, CHR 0x8C, CHR 0xA7]"
    by (simp_all add: WeatherSymbols_19 mk_symbol_def U0001f327_def)
  have e: "UnicodeWidth (WeatherSymbols ! 2) = 2"
    and f: "Unicode (WeatherSymbols ! 2) = [CHR 0xE2, CHR 0x9B, CHR 0x85]"
    by (simp_all add: WeatherSymbols_2 mk_symbol_def u26c5_def)
  from FixedWidth_of_entries a c d
  have "FixedWidth (WeatherSymbols ! 19) = [CHR 0xF0, CHR 0x9F, CHR 0x8C, CHR 0xA7, CHR 0x20]"
    by fastforce
  moreover from FixedWidth_of_entries b e f
  have "FixedWidth (WeatherSymbols ! 2) = [CHR 0xE2, CHR 0x9B, CHR 0x85, CHR 0xE2, CHR 0x80, CHR 0x8B]"
    by fastforce
  ultimately show ?thesis using a b c e by simp
qed

text \<open>
  Claim C8. The table has 28 entries; for every index \<open>i\<close> from 0 to 27 the
  entry at \<open>i\<close> has value \<open>i\<close> and display width 1 or 2; and the entry at index
  0 is the entry "No weather".
\<close>

theorem WeatherSymbols_dense:
  "length WeatherSymbols = 28
   \<and> (\<forall>i\<in>{0..27}. sint (Value (WeatherSymbols ! i)) = int i
          \<and> (UnicodeWidth (WeatherSymbols ! i) = 1 \<or> UnicodeWidth (WeatherSymbols ! i) = 2))
   \<and> Value (WeatherSymbols ! 0) = 0 \<and> Meaning (WeatherSymbols ! 0) = ''No weather''"
proof -
  have "sint (Value (WeatherSymbols ! i)) = int i
      \<and> (UnicodeWidth (WeatherSymbols ! i) = 1 \<or> UnicodeWidth (WeatherSymbols ! i) = 2)"
    if "i \<in> {0..27}" for i :: nat
  proof -
    from that have i: "i < 28" by simp
    then have "Value (WeatherSymbols ! i) = map Value WeatherSymbols ! i"
      by (simp add: length_WeatherSymbols)
    also have "\<dots> = of_nat i"
      using i by (simp only: Value_WeatherSymbols) simp
    finally have "sint (Value (WeatherSymbols ! i)) = sint (of_nat i :: go_int)" by simp
    also have "\<dots> = int i"
      using i by (intro sint_of_nat_small) simp
    finally have "sint (Value (WeatherSymbols ! i)) = int i" .
    moreover have "UnicodeWidth (WeatherSymbols ! i) = 1 \<or> UnicodeWidth (WeatherSymbols ! i) = 2"
      using UnicodeWidth_WeatherSymbols i by (simp add: list_all_length length_WeatherSymbols)
    ultimately show ?thesis by simp
  qed
  moreover have "Value (WeatherSymbols ! 0) = 0 \<and> Meaning (WeatherSymbols ! 0) = ''No weather''"
    by (simp add: WeatherSymbols_def mk_symbol_def)
  ultimately show ?thesis by (simp add: length_WeatherSymbols)
qed

theorem WeatherSymbols_dense_witness:
  "(19::nat) \<in> {0..27} \<and> sint (Value (WeatherSymbols ! 19)) = 19
   \<and> UnicodeWidth (WeatherSymbols ! 19) = 1"
proof -
  have a: "(19::nat) \<in> {0..27}" by simp
  have "UnicodeWidth (WeatherSymbols ! 19) = 1"
    by (simp add: WeatherSymbols_19 mk_symbol_def)
  moreover have "sint (Value (WeatherSymbols ! 19)) = int 19"
    using WeatherSymbols_dense a by blast
  ultimately show ?thesis by simp
qed

text \<open>
  Claim C9, as amended. \<open>Int\<close> performs the lookup of \<open>Float64\<close> and applies the
  conversion \<open>int(f)\<close> to its result: it panics where \<open>Float64\<close> does, and returns
  the converted number otherwise. Where the integer part of the number found is
  representable as an \<open>int\<close>, \<open>Int\<close> returns the truncation toward zero of what
  \<open>Float64\<close> returns; and where no parameter is named \<open>X\<close> it returns 0.
\<close>

theorem Int_item_truncates:
  "Int_item impl i X =
     (case Float64 i X of Inl e \<Rightarrow> Inl e | Inr v \<Rightarrow> Inr (int_of_float64 impl v))
   \<and> (Float64 i X = Inr v \<and> representable_int v \<longrightarrow>
        (\<exists>n. Int_item impl i X = Inr n \<and> sint n = trunc_toward_zero (f64_value v)))
   \<and> ((\<forall>p\<in>set (Parameters i). Name p \<noteq> X) \<longrightarrow> Int_item impl i X = Inr 0)"
proof -
  have conv: "Int_item impl i X =
      (case Float64 i X of Inl e \<Rightarrow> Inl e | Inr v \<Rightarrow> Inr (int_of_float64 impl v))"
    by (simp add: Int_item_def Float64_def Int_loop_Float64_loop)
  have "\<exists>n. Int_item impl i X = Inr n \<and> sint n = trunc_toward_zero (f64_value v)"
    if "Float64 i X = Inr v" "representable_int v"
    using that conv by (simp add: sint_int_of_float64 f64_trunc_eq)
  then show ?thesis
    using conv Int_item_absent [of i X impl] by blast
qed

theorem Int_item_truncates_witness:
  "Float64 fraction_item ''spp'' = Inr float64_neg_2_5
   \<and> representable_int float64_neg_2_5
   \<and> f64_value float64_neg_2_5 = - 2.5
   \<and> Int_item amd64_out_of_range fraction_item ''spp'' = Inr (- 2)
   \<and> sint (- 2 :: go_int) = trunc_toward_zero (- 2.5)
   \<and> list_all (\<lambda>p. Name p \<noteq> ''t'') (Parameters fraction_item)
   \<and> Int_item amd64_out_of_range fraction_item ''t'' = Inr 0"
proof -
  have a: "Float64 fraction_item ''spp'' = Inr float64_neg_2_5"
    by (simp add: Float64_def item_eval index_go_0)
  have b: "representable_int float64_neg_2_5"
    by (simp add: f64_eval float64_neg_2_5_def)
  have c: "\<forall>p\<in>set (Parameters fraction_item). Name p \<noteq> ''t''"
    by (simp add: item_eval)
  note inst = Int_item_truncates [of amd64_out_of_range fraction_item]
  from inst [of "''spp''"] a
  have d: "Int_item amd64_out_of_range fraction_item ''spp'' = Inr (- 2)"
    by (simp add: int_of_float64_neg_2_5)
  from inst [of "''spp''" float64_neg_2_5] a b d
  have "sint (- 2 :: go_int) = trunc_toward_zero (f64_value float64_neg_2_5)"
    by auto
  moreover from inst [of "''t''"] c
  have "Int_item amd64_out_of_range fraction_item ''t'' = Inr 0" by blast
  ultimately show ?thesis
    using a b c d by (simp add: float64_neg_2_5_value list_all_iff)
qed

text \<open>
  The claim as it is written fails for a number beyond the range of \<open>int\<close>: for
  the value 1e19 the truncation toward zero is \<open>10 ^ 19\<close>, while \<open>Int\<close> returns a
  64-bit integer, on amd64 the smallest one.
\<close>

theorem Int_item_truncates_counterexample:
  "Float64 huge_item ''vis'' = Inr float64_1e19
   \<and> trunc_toward_zero (f64_value float64_1e19) = 10 ^ 19
   \<and> Int_item amd64_out_of_range huge_item ''vis'' = Inr 0x8000000000000000
   \<and> sint (0x8000000000000000 :: go_int) = - (2 ^ 63)
   \<and> sint (0x8000000000000000 :: go_int) \<noteq> trunc_toward_zero (f64_value float64_1e19)"
proof -
  have a: "Float64 huge_item ''vis'' = Inr float64_1e19"
    by (simp add: Float64_def item_eval index_go_0)
  have b: "trunc_toward_zero (f64_value float64_1e19) = 10 ^ 19"
    by (simp add: float64_1e19_value trunc_toward_zero_def)
  have c: "Int_item amd64_out_of_range huge_item ''vis'' = Inr 0x8000000000000000"
    using not_representable_1e19
    by (simp add: Int_item_def item_eval index_go_0 int_of_float64_def amd64_out_of_range_def)
  have d: "sint (0x8000000000000000 :: go_int) = - (2 ^ 63)" by simp
  show ?thesis using a b c d by simp
qed

text \<open>
  Claim C10. For an item whose code is outside 1..27, and so for an item without
  a parameter named \<open>Wsymb2\<close>, the padded form of the symbol returned is the
  zero-width space U+200B alone (the bytes E2 80 8B): no glyph, no ordinary
  space, and is declared to take no display column. Every entry of the table, in
  contrast, has a non-empty glyph before its padding, so that its padded form is
  never this string, and is declared to take two columns.
\<close>

theorem padded_unknown_symbol:
  "(Int_item impl i ''Wsymb2'' = Inr c \<and> \<not> (1 \<le> sint c \<and> sint c \<le> 27) \<longrightarrow>
      TimeSeriesItem_WeatherSymbol impl i = Inr zero_WeatherSymbol
      \<and> UnicodeWidth zero_WeatherSymbol = 0
      \<and> padded_symbol impl i = Inr [CHR 0xE2, CHR 0x80, CHR 0x8B])
   \<and> ((\<forall>p\<in>set (Parameters i). Name p \<noteq> ''Wsymb2'') \<longrightarrow>
        padded_symbol impl i = Inr [CHR 0xE2, CHR 0x80, CHR 0x8B])
   \<and> CHR 0x20 \<notin> set [CHR 0xE2, CHR 0x80, CHR 0x8B]
   \<and> declared_columns zero_WeatherSymbol = 0
   \<and> (\<forall>s\<in>set WeatherSymbols.
         Unicode s \<noteq> [] \<and> FixedWidth s \<noteq> [CHR 0xE2, CHR 0x80, CHR 0x8B]
         \<and> declared_columns s = 2)"
proof -
  have out: "TimeSeriesItem_WeatherSymbol impl i = Inr zero_WeatherSymbol
      \<and> padded_symbol impl i = Inr [CHR 0xE2, CHR 0x80, CHR 0x8B]"
    if "Int_item impl i ''Wsymb2'' = Inr c" "\<not> (1 \<le> sint c \<and> sint c \<le> 27)" for c
    using WeatherSymbol_of_code [OF that(1)] that(2)
    by (simp add: padded_symbol_def FixedWidth_zero u200b_def)
  have "padded_symbol impl i = Inr [CHR 0xE2, CHR 0x80, CHR 0x8B]"
    if "\<forall>p\<in>set (Parameters i). Name p \<noteq> ''Wsymb2''"
    using out [of 0] Int_item_absent [OF that, of impl] by simp
  moreover have "Unicode s \<noteq> [] \<and> FixedWidth s \<noteq> [CHR 0xE2, CHR 0x80, CHR 0x8B]
      \<and> declared_columns s = 2"
    if "s \<in> set WeatherSymbols" for s
  proof -
    from that Unicode_WeatherSymbols have glyph: "Unicode s \<noteq> []"
      by (simp add: list_all_iff)
    have "last (FixedWidth s) = CHR 0x20" if "UnicodeWidth s = 1"
      using that by (simp add: FixedWidth_def)
    moreover have "FixedWidth s = Unicode s @ [CHR 0xE2, CHR 0x80, CHR 0x8B]" if "UnicodeWidth s \<noteq> 1"
      using that by (simp add: FixedWidth_def u200b_def)
    ultimately have "FixedWidth s \<noteq> [CHR 0xE2, CHR 0x80, CHR 0x8B]"
      using glyph by (cases "UnicodeWidth s = 1") auto
    moreover from that UnicodeWidth_WeatherSymbols have "declared_columns s = 2"
      by (auto simp: list_all_iff declared_columns_def)
    ultimately show ?thesis using glyph by simp
  qed
  moreover have "declared_columns zero_WeatherSymbol = 0"
    by (simp add: declared_columns_def zero_WeatherSymbol_def)
  ultimately show ?thesis
    using out by (simp add: zero_WeatherSymbol_def)
qed


theorem padded_unknown_symbol_witness:
  "Int_item amd64_out_of_range fraction_item ''Wsymb2'' = Inr 0
   \<and> padded_symbol amd64_out_of_range fraction_item = Inr [CHR 0xE2, CHR 0x80, CHR 0x8B]
   \<and> list_all (\<lambda>p. Name p \<noteq> ''Wsymb2'') (Parameters empty_item)
   \<and> padded_symbol amd64_out_of_range empty_item = Inr [CHR 0xE2, CHR 0x80, CHR 0x8B]
   \<and> WeatherSymbols ! 2 \<in> set WeatherSymbols
   \<and> FixedWidth (WeatherSymbols ! 2) \<noteq> [CHR 0xE2, CHR 0x80, CHR 0x8B]
   \<and> declared_columns (WeatherSymbols ! 2) = 2"
proof -
  have a: "Int_item amd64_out_of_range fraction_item ''Wsymb2'' = Inr 0"
    by (simp add: Int_item_def item_eval)
  have b: "\<forall>p\<in>set (Parameters empty_item). Name p \<noteq> ''Wsymb2''"
    by (simp add: item_eval)
  have c: "WeatherSymbols ! 2 \<in> set WeatherSymbols"
    by (simp add: length_WeatherSymbols)
  have "padded_symbol amd64_out_of_range fraction_item = Inr [CHR 0xE2, CHR 0x80, CHR 0x8B]"
    using a padded_unknown_symbol [of amd64_out_of_range fraction_item 0] by simp
  moreover have "padded_symbol amd64_out_of_range empty_item = Inr [CHR 0xE2, CHR 0x80, CHR 0x8B]"
    using b padded_unknown_symbol [of amd64_out_of_range empty_item] by blast
  moreover have "FixedWidth (WeatherSymbols ! 2) \<noteq> [CHR 0xE2, CHR 0x80, CHR 0x8B]"
    and "declared_columns (WeatherSymbols ! 2) = 2"
    using c padded_unknown_symbol [of amd64_out_of_range empty_item] by blast+
  ultimately show ?thesis using a b c by (simp add: list_all_iff)
qed

end
